theory Spec2Isabelle
  imports Complex_Main "HOL-Library.AList"
begin

section \<open>Time to Shop: the scoring pipeline\<close>

text \<open>
  A shallow embedding of the cleaning stage (\<^verbatim>\<open>core/data_loader.py\<close> and the legacy
  \<^verbatim>\<open>scorer.py\<close>), of the constants (\<^verbatim>\<open>core/constants.py\<close>) and of the predictor
  (\<^verbatim>\<open>models/predictor.py\<close>).

  Numbers. A cell of a data frame and a probability are rationals: every finite double is
  a rational, the code only compares and truncates them, and the bin edges are the decimal
  literals of the source. Integers are unbounded.

  Exceptions are values: a function that can raise returns \<open>error + 'a\<close>.
\<close>

subsection \<open>Exceptions\<close>

datatype message =
    Model_not_loaded
  | Missing_required_features "string set"
  | Bins_must_increase_monotonically
  | Bin_edges_must_be_unique
  | Labels_must_be_unique
  | Bin_labels_must_be_one_fewer
  | All_arrays_must_be_of_the_same_length
  | Cannot_convert_to_integer

datatype error =
    ValueError message
  | KeyError string
  | AttributeError string
  | TypeError
  | Raised_by_classifier

subsection \<open>Constants (\<^verbatim>\<open>core/constants.py\<close>)\<close>

definition FEATURE_COLUMNS :: "string list" where
  "FEATURE_COLUMNS =
    [''SALES_6M'', ''FREQUENCY_6M'', ''BUYS_Q_03'', ''COUPON_Q_03'', ''PH_MREDEEM90D'',
     ''PH_PFREQ90D'', ''PH_CFREQ90D'', ''BBB_INSTORE_RFM_DECILE'', ''BBB_ECOM_R_DECILE'',
     ''BBB_OFFCOUPON_RFM_DECILE'', ''NUM_PERIODS'', ''NUM_PRODUCT_GROUPS'',
     ''PRESENCE_OF_CHILD'', ''MARITAL_STAT'']"

definition KEY_COLUMNS :: "string list" where
  "KEY_COLUMNS = [''CUSTOMER_ID'', ''ADDRESS_ID'']"

definition INT_COLUMNS :: "string list" where
  "INT_COLUMNS =
    [''SALES_6M'', ''COUPON_EXPENSE_6M'', ''BUYS_Q_03'', ''COUPON_Q_03'', ''PH_MREDEEM90D'',
     ''PH_PFREQ90D'', ''PH_CFREQ90D'', ''BBB_INSTORE_RFM_DECILE'', ''BBB_ECOM_R_DECILE'',
     ''BBB_OFFCOUPON_RFM_DECILE'', ''PCT_TXNS_ON_MKD_DISC'']"

definition FILL_VALUE_DECILE :: rat where "FILL_VALUE_DECILE = 11"
definition FILL_VALUE_RECENCY :: rat where "FILL_VALUE_RECENCY = 366"
definition FILL_VALUE_DEFAULT :: rat where "FILL_VALUE_DEFAULT = 0"

definition DECILE_BINS :: "rat list" where
  "DECILE_BINS =
    [0.00, 0.19662877, 0.21054794, 0.25123934, 0.26712146,
     0.42682036, 0.493293, 0.59348687, 0.67486295, 0.77079006, 1.0]"

definition DECILE_LABELS :: "string list" where
  "DECILE_LABELS = [''10'', ''9'', ''8'', ''7'', ''6'', ''5'', ''4'', ''3'', ''2'', ''1'']"

subsection \<open>The binning of \<^verbatim>\<open>pd.cut(x, bins=..., labels=...)\<close>\<close>

text \<open>
  The call in \<^verbatim>\<open>predict\<close> passes a list of edges and a list of labels and leaves
  \<^verbatim>\<open>right=True\<close>, \<^verbatim>\<open>include_lowest=False\<close> at their defaults. The library checks the edges
  and the labels, finds for each value the number of edges strictly below it
  (\<^verbatim>\<open>searchsorted(side="left")\<close>), and marks as missing the values for which that number is
  0 or the number of edges. The result is a categorical: per value a code (the index of
  its bin) or no code, and the labels as categories.
\<close>

definition searchsorted_left :: "rat list \<Rightarrow> rat \<Rightarrow> nat" where
  "searchsorted_left bins x = length (takeWhile (\<lambda>b. b < x) bins)"

definition cut_code :: "rat list \<Rightarrow> rat \<Rightarrow> nat option" where
  "cut_code bins x =
     (let ids = searchsorted_left bins x
      in if ids = length bins \<or> ids = 0 then None else Some (ids - 1))"

definition pd_cut :: "rat list \<Rightarrow> rat list \<Rightarrow> string list \<Rightarrow> error + string option list" where
  "pd_cut xs bins labels =
     (if \<not> sorted bins then Inl (ValueError Bins_must_increase_monotonically)
      else if \<not> distinct bins \<and> length bins \<noteq> 2 then Inl (ValueError Bin_edges_must_be_unique)
      else if \<not> distinct labels then Inl (ValueError Labels_must_be_unique)
      else if length labels \<noteq> length bins - 1 then Inl (ValueError Bin_labels_must_be_one_fewer)
      else Inr (map (\<lambda>x. map_option (\<lambda>i. labels ! i) (cut_code bins x)) xs))"

text \<open>The bin and the label that \<^verbatim>\<open>predict\<close> gives one probability.\<close>

definition decile_bin :: "rat \<Rightarrow> nat option" where
  "decile_bin p = cut_code DECILE_BINS p"

definition decile_label :: "rat \<Rightarrow> string option" where
  "decile_label p = map_option (\<lambda>i. DECILE_LABELS ! i) (decile_bin p)"

subsection \<open>\<^verbatim>\<open>output['DECILE'].astype(int)\<close> (\<^verbatim>\<open>_prepare_output\<close>, and \<^verbatim>\<open>main\<close> of the legacy script)\<close>

text \<open>
  The labels are strings; the formatter turns them into integers, and raises on a missing
  label. Only unsigned decimal digit strings are parsed, which is what the labels are.
\<close>

definition digit_of :: "char \<Rightarrow> nat option" where
  "digit_of c = (let n = (of_char c :: nat) in if 48 \<le> n \<and> n \<le> 57 then Some (n - 48) else None)"

fun parse_digits :: "nat \<Rightarrow> string \<Rightarrow> nat option" where
  "parse_digits acc [] = Some acc"
| "parse_digits acc (c # cs) =
     (case digit_of c of None \<Rightarrow> None | Some d \<Rightarrow> parse_digits (10 * acc + d) cs)"

definition int_of_label :: "string option \<Rightarrow> error + int" where
  "int_of_label l =
     (case l of
        None \<Rightarrow> Inl (ValueError Cannot_convert_to_integer)
      | Some s \<Rightarrow>
          (if s = [] then Inl (ValueError Cannot_convert_to_integer)
           else case parse_digits 0 s of
                  None \<Rightarrow> Inl (ValueError Cannot_convert_to_integer)
                | Some n \<Rightarrow> Inr (int n)))"

definition decile :: "rat \<Rightarrow> error + int" where
  "decile p = int_of_label (decile_label p)"

subsection \<open>Data frames\<close>

text \<open>
  A cell holds a number, a value that is not a number (\<open>Other\<close>: a timestamp, a text),
  or nothing (\<open>None\<close>: NaN, NULL). A column has a dtype and its cells; a data frame is the
  list of its named columns, in order. Looking a column up is \<^const>\<open>map_of\<close>, replacing
  one in place is \<^const>\<open>AList.update\<close>. The column names of a query result are distinct.
\<close>

datatype val = Num rat | Other string

type_synonym cell = "val option"

datatype dtype = Float64 | Int64 | Object

record column =
  dtype :: dtype
  cells :: "cell list"

type_synonym table = "(string \<times> column) list"

definition columns :: "table \<Rightarrow> string list" where
  "columns df = map fst df"

text \<open>Python's \<^verbatim>\<open>sub in s\<close> on strings.\<close>

fun starts_with :: "string \<Rightarrow> string \<Rightarrow> bool" where
  "starts_with s [] = True"
| "starts_with [] (c # cs) = False"
| "starts_with (x # xs) (c # cs) = (x = c \<and> starts_with xs cs)"

fun str_in :: "string \<Rightarrow> string \<Rightarrow> bool" where
  "str_in sub [] = (sub = [])"
| "str_in sub (x # xs) = (starts_with (x # xs) sub \<or> str_in sub xs)"

subsection \<open>\<^verbatim>\<open>DataLoader._fill_missing_values\<close>\<close>

definition fillna :: "rat \<Rightarrow> column \<Rightarrow> column" where
  "fillna v c = c\<lparr>cells := map (\<lambda>x. case x of None \<Rightarrow> Some (Num v) | Some y \<Rightarrow> Some y) (cells c)\<rparr>"

definition fill_missing_values :: "table \<Rightarrow> table" where
  "fill_missing_values df =
     map (\<lambda>(col, c).
        if str_in ''DECILE'' col then (col, fillna FILL_VALUE_DECILE c)
        else if str_in ''_R'' col \<and> \<not> str_in ''DECILE'' col then (col, fillna FILL_VALUE_RECENCY c)
        else (col, fillna FILL_VALUE_DEFAULT c)) df"

subsection \<open>\<^verbatim>\<open>DataLoader._fix_negative_values\<close>\<close>

text \<open>
  \<^verbatim>\<open>df[col] < 0\<close>: NaN compares false, a value that is not a number raises.
\<close>

fun lt_zero :: "cell \<Rightarrow> error + bool" where
  "lt_zero None = Inr False"
| "lt_zero (Some (Num r)) = Inr (r < 0)"
| "lt_zero (Some (Other s)) = Inl TypeError"

fun series_lt_zero :: "cell list \<Rightarrow> error + bool list" where
  "series_lt_zero [] = Inr []"
| "series_lt_zero (x # xs) =
     (case lt_zero x of
        Inl e \<Rightarrow> Inl e
      | Inr b \<Rightarrow> (case series_lt_zero xs of Inl e \<Rightarrow> Inl e | Inr bs \<Rightarrow> Inr (b # bs)))"

text \<open>\<^verbatim>\<open>mask.sum()\<close> and \<^verbatim>\<open>series.loc[mask] = v\<close>.\<close>

definition mask_sum :: "bool list \<Rightarrow> nat" where
  "mask_sum bs = length (filter (\<lambda>b. b) bs)"

fun assign_where :: "bool list \<Rightarrow> val \<Rightarrow> cell list \<Rightarrow> cell list" where
  "assign_where (b # bs) v (x # xs) = (if b then Some v else x) # assign_where bs v xs"
| "assign_where bs v xs = xs"

text \<open>One of the two blocks of the method, for the column \<open>col\<close>.\<close>

definition fix_negative :: "string \<Rightarrow> table \<Rightarrow> error + table" where
  "fix_negative col df =
     (case map_of df col of
        None \<Rightarrow> Inr df
      | Some c \<Rightarrow>
          (case series_lt_zero (cells c) of
             Inl e \<Rightarrow> Inl e
           | Inr negative \<Rightarrow>
               if mask_sum negative > 0
               then Inr (AList.update col (c\<lparr>cells := assign_where negative (Num 0) (cells c)\<rparr>) df)
               else Inr df))"

definition fix_negative_values :: "table \<Rightarrow> error + table" where
  "fix_negative_values df =
     (case fix_negative ''SALES_6M'' df of
        Inl e \<Rightarrow> Inl e
      | Inr df \<Rightarrow> fix_negative ''COUPON_EXPENSE_6M'' df)"

subsection \<open>\<^verbatim>\<open>DataLoader._convert_data_types\<close>\<close>

definition astype_object :: "column \<Rightarrow> column" where
  "astype_object c = c\<lparr>dtype := Object\<rparr>"

text \<open>
  \<^verbatim>\<open>astype('int')\<close> truncates towards zero and raises on a missing value and on a value
  that is not a number (the library raises a ValueError or a TypeError there; the model
  does not tell them apart).
\<close>

definition trunc :: "rat \<Rightarrow> int" where
  "trunc r = (if 0 \<le> r then \<lfloor>r\<rfloor> else \<lceil>r\<rceil>)"

fun int_of_cell :: "cell \<Rightarrow> error + cell" where
  "int_of_cell None = Inl (ValueError Cannot_convert_to_integer)"
| "int_of_cell (Some (Num r)) = Inr (Some (Num (of_int (trunc r))))"
| "int_of_cell (Some (Other s)) = Inl (ValueError Cannot_convert_to_integer)"

fun ints_of_cells :: "cell list \<Rightarrow> error + cell list" where
  "ints_of_cells [] = Inr []"
| "ints_of_cells (x # xs) =
     (case int_of_cell x of
        Inl e \<Rightarrow> Inl e
      | Inr y \<Rightarrow> (case ints_of_cells xs of Inl e \<Rightarrow> Inl e | Inr ys \<Rightarrow> Inr (y # ys)))"

definition astype_int :: "column \<Rightarrow> error + column" where
  "astype_int c =
     (case ints_of_cells (cells c) of
        Inl e \<Rightarrow> Inl e
      | Inr xs \<Rightarrow> Inr (c\<lparr>dtype := Int64, cells := xs\<rparr>))"

text \<open>The two loops, over \<open>KEY_COLUMNS\<close> and over \<open>INT_COLUMNS\<close>.\<close>

fun astype_object_cols :: "string list \<Rightarrow> table \<Rightarrow> table" where
  "astype_object_cols [] df = df"
| "astype_object_cols (col # cols) df =
     (case map_of df col of
        None \<Rightarrow> astype_object_cols cols df
      | Some c \<Rightarrow> astype_object_cols cols (AList.update col (astype_object c) df))"

fun astype_int_cols :: "string list \<Rightarrow> table \<Rightarrow> error + table" where
  "astype_int_cols [] df = Inr df"
| "astype_int_cols (col # cols) df =
     (case map_of df col of
        None \<Rightarrow> astype_int_cols cols df
      | Some c \<Rightarrow>
          (case astype_int c of
             Inl e \<Rightarrow> Inl e
           | Inr c' \<Rightarrow> astype_int_cols cols (AList.update col c' df)))"

definition convert_data_types :: "table \<Rightarrow> error + table" where
  "convert_data_types df = astype_int_cols INT_COLUMNS (astype_object_cols KEY_COLUMNS df)"

subsection \<open>\<^verbatim>\<open>DataLoader._preprocess_data\<close>\<close>

text \<open>
  As a function of the frame's value: the returned frame, or the exception. The copy the
  method starts with has the value of its argument; the version on a store of frames,
  where the copy is a new object, is \<open>preprocess_data_on\<close> below.
\<close>

definition preprocess_data :: "table \<Rightarrow> error + table" where
  "preprocess_data df =
     (case fix_negative_values (fill_missing_values df) of
        Inl e \<Rightarrow> Inl e
      | Inr df \<Rightarrow> convert_data_types df)"

subsection \<open>The cleaning in \<^verbatim>\<open>data_upload\<close> of the legacy \<^verbatim>\<open>scorer.py\<close>\<close>

text \<open>
  \<open>data_upload data\<close> is what the function does to the frame \<open>data\<close> that its query returned.
\<close>

definition legacy_fill :: "table \<Rightarrow> table" where
  "legacy_fill data =
     map (\<lambda>(col, c).
        if str_in ''DECILE'' col then (col, fillna 11 c)
        else if str_in ''_R'' col \<and> \<not> str_in ''DECILE'' col then (col, fillna 366 c)
        else (col, fillna 0 c)) data"

text \<open>\<^verbatim>\<open>data.COL.loc[data.COL < 0] = 0\<close>: the attribute access raises when there is no such column.\<close>

definition legacy_clamp :: "string \<Rightarrow> table \<Rightarrow> error + table" where
  "legacy_clamp col data =
     (case map_of data col of
        None \<Rightarrow> Inl (AttributeError col)
      | Some c \<Rightarrow>
          (case series_lt_zero (cells c) of
             Inl e \<Rightarrow> Inl e
           | Inr negative \<Rightarrow>
               Inr (AList.update col (c\<lparr>cells := assign_where negative (Num 0) (cells c)\<rparr>) data)))"

text \<open>\<^verbatim>\<open>data[keys]\<close> with a list of names: a KeyError when one is not a column.\<close>

fun select_columns :: "string list \<Rightarrow> table \<Rightarrow> error + table" where
  "select_columns [] data = Inr []"
| "select_columns (col # cols) data =
     (case map_of data col of
        None \<Rightarrow> Inl (KeyError col)
      | Some c \<Rightarrow>
          (case select_columns cols data of Inl e \<Rightarrow> Inl e | Inr t \<Rightarrow> Inr ((col, c) # t)))"

text \<open>\<^verbatim>\<open>frame.astype('int')\<close> on a whole frame, and \<^verbatim>\<open>data[keys] = frame\<close>.\<close>

fun frame_astype_int :: "table \<Rightarrow> error + table" where
  "frame_astype_int [] = Inr []"
| "frame_astype_int ((col, c) # t) =
     (case astype_int c of
        Inl e \<Rightarrow> Inl e
      | Inr c' \<Rightarrow> (case frame_astype_int t of Inl e \<Rightarrow> Inl e | Inr t' \<Rightarrow> Inr ((col, c') # t')))"

definition frame_astype_object :: "table \<Rightarrow> table" where
  "frame_astype_object t = map (\<lambda>(col, c). (col, astype_object c)) t"

fun assign_columns :: "table \<Rightarrow> table \<Rightarrow> table" where
  "assign_columns [] data = data"
| "assign_columns ((col, c) # t) data = assign_columns t (AList.update col c data)"

definition data_upload :: "table \<Rightarrow> error + table" where
  "data_upload data =
     (case legacy_clamp ''SALES_6M'' (legacy_fill data) of
        Inl e \<Rightarrow> Inl e
      | Inr data \<Rightarrow>
     (case legacy_clamp ''COUPON_EXPENSE_6M'' data of
        Inl e \<Rightarrow> Inl e
      | Inr data \<Rightarrow>
     (case select_columns [''CUSTOMER_ID'', ''ADDRESS_ID''] data of
        Inl e \<Rightarrow> Inl e
      | Inr keys \<Rightarrow>
     (let data = assign_columns (frame_astype_object keys) data
      in case select_columns
               [''SALES_6M'', ''COUPON_EXPENSE_6M'', ''BUYS_Q_03'', ''COUPON_Q_03'',
                ''PH_MREDEEM90D'', ''PH_PFREQ90D'', ''PH_CFREQ90D'',
                ''BBB_INSTORE_RFM_DECILE'', ''BBB_ECOM_R_DECILE'',
                ''BBB_OFFCOUPON_RFM_DECILE'', ''PCT_TXNS_ON_MKD_DISC''] data of
           Inl e \<Rightarrow> Inl e
         | Inr key1 \<Rightarrow>
             (case frame_astype_int key1 of
                Inl e \<Rightarrow> Inl e
              | Inr ints \<Rightarrow> Inr (assign_columns ints data))))))"

subsection \<open>\<^verbatim>\<open>DataLoader._preprocess_data\<close> on a store of frames\<close>

text \<open>
  Data frames are objects: a store holds them, a reference is an index into it. The method
  copies its argument into a new object and lets the three steps work on that object, in
  place. When a step raises, the copy, which nothing refers to any more, is kept as it
  was before that step.
\<close>

type_synonym store = "table list"

definition df_copy :: "nat \<Rightarrow> store \<Rightarrow> nat \<times> store" where
  "df_copy df s = (length s, s @ [s ! df])"

definition preprocess_data_on :: "nat \<Rightarrow> store \<Rightarrow> (error + nat) \<times> store" where
  "preprocess_data_on df s =
     (let (df, s) = df_copy df s;
          s = s[df := fill_missing_values (s ! df)]
      in case fix_negative_values (s ! df) of
           Inl e \<Rightarrow> (Inl e, s)
         | Inr t \<Rightarrow>
             (let s = s[df := t]
              in case convert_data_types (s ! df) of
                   Inl e \<Rightarrow> (Inl e, s)
                 | Inr t \<Rightarrow> (Inr df, s[df := t])))"

subsection \<open>\<^verbatim>\<open>PurchasePredictor.predict\<close>\<close>

text \<open>
  The classifier is given from outside. It is what it computes: class probabilities
  (a pair per row, for the classes 0 and 1) and hard labels; either call may raise.
\<close>

record classifier =
  predict_proba :: "table \<Rightarrow> (rat \<times> rat) list option"
  predict_label :: "table \<Rightarrow> nat list option"

record predictor =
  model :: "classifier option"

text \<open>The output frame: its four columns.\<close>

record prediction =
  out_CUSTOMER_ID :: "cell list"
  out_PREVIOUS_PURCHASE :: "cell list"
  out_P :: "rat list"
  out_DECILE :: "string option list"

definition predict :: "predictor \<Rightarrow> table \<Rightarrow> error + prediction" where
  "predict self data =
     (case model self of
        None \<Rightarrow> Inl (ValueError Model_not_loaded)
      | Some m \<Rightarrow>
          (let missing_features = set FEATURE_COLUMNS - set (columns data)
           in if missing_features \<noteq> {}
              then Inl (ValueError (Missing_required_features missing_features))
              else
           (case select_columns FEATURE_COLUMNS data of
              Inl e \<Rightarrow> Inl e
            | Inr X \<Rightarrow>
           (case predict_proba m X of
              None \<Rightarrow> Inl Raised_by_classifier
            | Some probabilities \<Rightarrow>
           (let prob_purchase = map snd probabilities
            in case map_of data ''CUSTOMER_ID'' of
                 None \<Rightarrow> Inl (KeyError ''CUSTOMER_ID'')
               | Some customer_id \<Rightarrow>
           (case map_of data ''PREVIOUS_PURCHASE'' of
              None \<Rightarrow> Inl (KeyError ''PREVIOUS_PURCHASE'')
            | Some previous_purchase \<Rightarrow>
                if length (cells customer_id) \<noteq> length (cells previous_purchase)
                   \<or> length (cells previous_purchase) \<noteq> length prob_purchase
                then Inl (ValueError All_arrays_must_be_of_the_same_length)
                else
                  (case pd_cut prob_purchase DECILE_BINS DECILE_LABELS of
                     Inl e \<Rightarrow> Inl e
                   | Inr d \<Rightarrow>
                       Inr \<lparr>out_CUSTOMER_ID = cells customer_id,
                            out_PREVIOUS_PURCHASE = cells previous_purchase,
                            out_P = prob_purchase,
                            out_DECILE = d\<rparr>)))))))"

subsection \<open>\<^verbatim>\<open>extratrees_predict\<close> of the legacy \<^verbatim>\<open>scorer.py\<close>\<close>


subsection \<open>Notions the statements below use\<close>

text \<open>The fill value of a column, in the words of the specification.\<close>

definition fill_value :: "string \<Rightarrow> rat" where
  "fill_value col =
     (if str_in ''DECILE'' col then 11 else if str_in ''_R'' col then 366 else 0)"

text \<open>Clamping a negative number to 0, and truncating a number, cell by cell.\<close>

fun clamp_cell :: "cell \<Rightarrow> cell" where
  "clamp_cell (Some (Num r)) = (if r < 0 then Some (Num 0) else Some (Num r))"
| "clamp_cell x = x"

fun is_negative :: "cell \<Rightarrow> bool" where
  "is_negative (Some (Num r)) = (r < 0)"
| "is_negative x = False"

fun trunc_cell :: "cell \<Rightarrow> cell" where
  "trunc_cell (Some (Num r)) = Some (Num (of_int (trunc r)))"
| "trunc_cell x = x"

fun is_number :: "cell \<Rightarrow> bool" where
  "is_number (Some (Num r)) = True"
| "is_number x = False"

fun is_other :: "cell \<Rightarrow> bool" where
  "is_other (Some (Other s)) = True"
| "is_other x = False"

definition clamp_column :: "column \<Rightarrow> column" where
  "clamp_column c = c\<lparr>cells := map clamp_cell (cells c)\<rparr>"

definition to_int_column :: "column \<Rightarrow> column" where
  "to_int_column c = c\<lparr>dtype := Int64, cells := map trunc_cell (cells c)\<rparr>"

text \<open>What a successful cleaning does to the column named \<open>k\<close>.\<close>

definition clean_column :: "string \<Rightarrow> column \<Rightarrow> column" where
  "clean_column k c =
     (let c1 = fillna (fill_value k) c;
          c2 = (if k = ''SALES_6M'' \<or> k = ''COUPON_EXPENSE_6M'' then clamp_column c1 else c1);
          c3 = (if k \<in> set KEY_COLUMNS then astype_object c2 else c2)
      in if k \<in> set INT_COLUMNS then to_int_column c3 else c3)"

text \<open>The number of rows of a frame whose columns all have as many cells.\<close>

definition nrows :: "table \<Rightarrow> nat" where
  "nrows df = (case df of [] \<Rightarrow> 0 | (col, c) # t \<Rightarrow> length (cells c))"


definition no_missing :: "table \<Rightarrow> bool" where
  "no_missing df = list_all (\<lambda>(col, c). list_all (\<lambda>x. x \<noteq> None) (cells c)) df"

subsection \<open>A sample batch\<close>

text \<open>
  Five customers, after the fixture \<^verbatim>\<open>sample_customer_data\<close> of \<^verbatim>\<open>tests/conftest.py\<close>, with
  the columns the cleaning names added and with missing and negative values put in; the
  same batch cleaned; and the sales column of the specification's scenario.
\<close>

definition sample_customer_data :: table where
  "sample_customer_data =
    [(''CUSTOMER_ID'', \<lparr>dtype = Int64, cells = map (Some \<circ> Num) [1001, 1002, 1003, 1004, 1005]\<rparr>),
     (''ADDRESS_ID'', \<lparr>dtype = Int64, cells = map (Some \<circ> Num) [2001, 2002, 2003, 2004, 2005]\<rparr>),
     (''PREVIOUS_PURCHASE'', \<lparr>dtype = Object, cells = map (Some \<circ> Other)
        [''2024-01-01'', ''2024-01-02'', ''2024-01-03'', ''2024-01-04'', ''2024-01-05'']\<rparr>),
     (''SALES_6M'', \<lparr>dtype = Float64, cells = map (Some \<circ> Num) [100, -50, 250, 0, 400]\<rparr>),
     (''COUPON_EXPENSE_6M'', \<lparr>dtype = Float64,
        cells = [Some (Num 12.5), None, Some (Num (-3)), Some (Num 0), Some (Num 7)]\<rparr>),
     (''FREQUENCY_6M'', \<lparr>dtype = Int64, cells = map (Some \<circ> Num) [2, 5, 1, 8, 3]\<rparr>),
     (''BUYS_Q_03'', \<lparr>dtype = Int64, cells = map (Some \<circ> Num) [1, 2, 0, 3, 1]\<rparr>),
     (''COUPON_Q_03'', \<lparr>dtype = Int64, cells = map (Some \<circ> Num) [0, 1, 0, 2, 1]\<rparr>),
     (''PH_MREDEEM90D'', \<lparr>dtype = Int64, cells = map (Some \<circ> Num) [0, 1, 0, 2, 0]\<rparr>),
     (''PH_PFREQ90D'', \<lparr>dtype = Int64, cells = map (Some \<circ> Num) [1, 3, 0, 5, 2]\<rparr>),
     (''PH_CFREQ90D'', \<lparr>dtype = Int64, cells = map (Some \<circ> Num) [0, 2, 0, 3, 1]\<rparr>),
     (''BBB_INSTORE_RFM_DECILE'', \<lparr>dtype = Float64,
        cells = [Some (Num 5), None, Some (Num 3), Some (Num 10), Some (Num 6)]\<rparr>),
     (''BBB_ECOM_R_DECILE'', \<lparr>dtype = Int64, cells = map (Some \<circ> Num) [4, 7, 2, 9, 5]\<rparr>),
     (''BBB_OFFCOUPON_RFM_DECILE'', \<lparr>dtype = Int64, cells = map (Some \<circ> Num) [3, 6, 2, 8, 4]\<rparr>),
     (''NUM_PERIODS'', \<lparr>dtype = Int64, cells = map (Some \<circ> Num) [2, 4, 1, 6, 3]\<rparr>),
     (''NUM_PRODUCT_GROUPS'', \<lparr>dtype = Int64, cells = map (Some \<circ> Num) [3, 5, 2, 8, 4]\<rparr>),
     (''PRESENCE_OF_CHILD'', \<lparr>dtype = Int64, cells = map (Some \<circ> Num) [1, 2, 99, 1, 2]\<rparr>),
     (''MARITAL_STAT'', \<lparr>dtype = Int64, cells = map (Some \<circ> Num) [1, 2, 1, 2, 99]\<rparr>),
     (''PCT_TXNS_ON_MKD_DISC'', \<lparr>dtype = Float64,
        cells = [Some (Num 0.5), Some (Num 1), None, Some (Num 0), Some (Num 0.25)]\<rparr>),
     (''DAYS_SINCE_R'', \<lparr>dtype = Float64,
        cells = [Some (Num 10), None, Some (Num 30), None, Some (Num 2)]\<rparr>)]"



definition sample_cleaned :: table where
  "sample_cleaned =
    [(''CUSTOMER_ID'', \<lparr>dtype = Object, cells = map (Some \<circ> Num) [1001, 1002, 1003, 1004, 1005]\<rparr>),
     (''ADDRESS_ID'', \<lparr>dtype = Object, cells = map (Some \<circ> Num) [2001, 2002, 2003, 2004, 2005]\<rparr>),
     (''PREVIOUS_PURCHASE'', \<lparr>dtype = Object, cells = map (Some \<circ> Other)
        [''2024-01-01'', ''2024-01-02'', ''2024-01-03'', ''2024-01-04'', ''2024-01-05'']\<rparr>),
     (''SALES_6M'', \<lparr>dtype = Int64, cells = map (Some \<circ> Num) [100, 0, 250, 0, 400]\<rparr>),
     (''COUPON_EXPENSE_6M'', \<lparr>dtype = Int64, cells = map (Some \<circ> Num) [12, 0, 0, 0, 7]\<rparr>),
     (''FREQUENCY_6M'', \<lparr>dtype = Int64, cells = map (Some \<circ> Num) [2, 5, 1, 8, 3]\<rparr>),
     (''BUYS_Q_03'', \<lparr>dtype = Int64, cells = map (Some \<circ> Num) [1, 2, 0, 3, 1]\<rparr>),
     (''COUPON_Q_03'', \<lparr>dtype = Int64, cells = map (Some \<circ> Num) [0, 1, 0, 2, 1]\<rparr>),
     (''PH_MREDEEM90D'', \<lparr>dtype = Int64, cells = map (Some \<circ> Num) [0, 1, 0, 2, 0]\<rparr>),
     (''PH_PFREQ90D'', \<lparr>dtype = Int64, cells = map (Some \<circ> Num) [1, 3, 0, 5, 2]\<rparr>),
     (''PH_CFREQ90D'', \<lparr>dtype = Int64, cells = map (Some \<circ> Num) [0, 2, 0, 3, 1]\<rparr>),
     (''BBB_INSTORE_RFM_DECILE'', \<lparr>dtype = Int64, cells = map (Some \<circ> Num) [5, 11, 3, 10, 6]\<rparr>),
     (''BBB_ECOM_R_DECILE'', \<lparr>dtype = Int64, cells = map (Some \<circ> Num) [4, 7, 2, 9, 5]\<rparr>),
     (''BBB_OFFCOUPON_RFM_DECILE'', \<lparr>dtype = Int64, cells = map (Some \<circ> Num) [3, 6, 2, 8, 4]\<rparr>),
     (''NUM_PERIODS'', \<lparr>dtype = Int64, cells = map (Some \<circ> Num) [2, 4, 1, 6, 3]\<rparr>),
     (''NUM_PRODUCT_GROUPS'', \<lparr>dtype = Int64, cells = map (Some \<circ> Num) [3, 5, 2, 8, 4]\<rparr>),
     (''PRESENCE_OF_CHILD'', \<lparr>dtype = Int64, cells = map (Some \<circ> Num) [1, 2, 99, 1, 2]\<rparr>),
     (''MARITAL_STAT'', \<lparr>dtype = Int64, cells = map (Some \<circ> Num) [1, 2, 1, 2, 99]\<rparr>),
     (''PCT_TXNS_ON_MKD_DISC'', \<lparr>dtype = Int64, cells = map (Some \<circ> Num) [0, 1, 0, 0, 0]\<rparr>),
     (''DAYS_SINCE_R'', \<lparr>dtype = Float64, cells = map (Some \<circ> Num) [10, 366, 30, 366, 2]\<rparr>)]"

definition sales_scenario :: table where
  "sales_scenario =
    [(''CUSTOMER_ID'', \<lparr>dtype = Int64, cells = map (Some \<circ> Num) [1001, 1002, 1003, 1004, 1005]\<rparr>),
     (''SALES_6M'', \<lparr>dtype = Float64, cells = map (Some \<circ> Num) [100, -50, 250, 0, 400]\<rparr>)]"

text \<open>A classifier to run the predictor with: it gives every row the probabilities 1/2 and 1/2.\<close>

definition coin_classifier :: classifier where
  "coin_classifier =
     \<lparr>predict_proba = (\<lambda>X. Some (replicate (nrows X) (1/2, 1/2))),
      predict_label = (\<lambda>X. Some (replicate (nrows X) 0))\<rparr>"

section \<open>The decile assigner\<close>

lemmas decile_defs = decile_def decile_label_def decile_bin_def cut_code_def
  searchsorted_left_def DECILE_BINS_def DECILE_LABELS_def int_of_label_def digit_of_def

lemma decile_bin_cases:
  "decile_bin p =
     (if p \<le> 0 then None
      else if p \<le> 0.19662877 then Some 0
      else if p \<le> 0.21054794 then Some 1
      else if p \<le> 0.25123934 then Some 2
      else if p \<le> 0.26712146 then Some 3
      else if p \<le> 0.42682036 then Some 4
      else if p \<le> 0.493293 then Some 5
      else if p \<le> 0.59348687 then Some 6
      else if p \<le> 0.67486295 then Some 7
      else if p \<le> 0.77079006 then Some 8
      else if p \<le> 1 then Some 9
      else None)"
  by (simp add: decile_bin_def cut_code_def searchsorted_left_def DECILE_BINS_def)

lemma pd_cut_DECILE: "pd_cut xs DECILE_BINS DECILE_LABELS = Inr (map decile_label xs)"
  by (simp add: pd_cut_def decile_label_def decile_bin_def DECILE_BINS_def DECILE_LABELS_def)

lemma decile_bin_mono:
  "decile_bin p1 = Some i \<Longrightarrow> decile_bin p2 = Some j \<Longrightarrow> p1 \<le> p2 \<Longrightarrow> i \<le> j"
  by (simp add: decile_bin_cases split: if_splits)

text \<open>
  C1 (the decile is a non-decreasing function of the probability, with values in 1..10 and
  10 the highest likelihood). The code does the opposite: the labels are listed from
  \<open>''10''\<close> down to \<open>''1''\<close> against ascending edges, so the probability 0.1 gets the decile
  10 and the probability 0.9 the decile 1; and the probability 0 gets no decile, so that
  its conversion to an integer raises.
\<close>

theorem decile_reversed:
  "decile (1/10) = Inr 10 \<and> decile (9/10) = Inr 1
   \<and> decile 0 = Inl (ValueError Cannot_convert_to_integer)"
  by (simp add: decile_defs)



text \<open>
  C7, as stated (a probability outside [0,1] makes the assigner fail), fails at 3/2: the
  binning returns, with a missing label.
\<close>

theorem out_of_range_counterexample:
  "(1::rat) < 3/2 \<and> pd_cut [3/2] DECILE_BINS DECILE_LABELS = Inr [None]"
  by (simp add: pd_cut_DECILE decile_label_def decile_bin_cases)

text \<open>
  C7, amended: for every probability outside [0,1] the assigner raises nothing and
  assigns no decile (a missing label); it does not clamp the probability into range.
\<close>

theorem out_of_range_missing:
  "p < 0 \<or> 1 < p \<Longrightarrow> pd_cut [p] DECILE_BINS DECILE_LABELS = Inr [None]"
  by (auto simp add: pd_cut_DECILE decile_label_def decile_bin_cases)

theorem out_of_range_missing_witness:
  "((- (1/2) :: rat) < 0 \<or> (1::rat) < - (1/2))
   \<and> pd_cut [- (1/2)] DECILE_BINS DECILE_LABELS = Inr [None]"
  using out_of_range_missing [of "- (1/2)"] by simp

section \<open>The cleaning stage\<close>

subsection \<open>Association lists\<close>

lemma update_same_keys: "map_of al k = Some c \<Longrightarrow> map fst (AList.update k v al) = map fst al"
  by (induction al) (auto split: if_splits)

lemma list_all_update:
  "list_all Q al \<Longrightarrow> Q (k, v) \<Longrightarrow> list_all Q (AList.update k v al)"
  by (induction al) auto

lemma update_nth_other:
  "i < length al \<Longrightarrow> fst (al ! i) \<noteq> k \<Longrightarrow> AList.update k v al ! i = al ! i"
proof (induction al arbitrary: i)
  case Nil then show ?case by simp
next
  case (Cons p ps)
  then show ?case by (cases i) auto
qed

lemma map_of_update_other: "k' \<noteq> k \<Longrightarrow> map_of (AList.update k v al) k' = map_of al k'"
  by (simp add: update_conv')

lemma map_of_update_same: "map_of (AList.update k v al) k = Some v"
  by (simp add: update_conv')

subsection \<open>Filling missing values\<close>

lemma fill_missing_values_spec:
  "fill_missing_values df = map (\<lambda>(col, c). (col, fillna (fill_value col) c)) df"
  by (auto simp: fill_missing_values_def fill_value_def FILL_VALUE_DECILE_def
      FILL_VALUE_RECENCY_def FILL_VALUE_DEFAULT_def)

lemma legacy_fill_eq: "legacy_fill df = fill_missing_values df"
  unfolding legacy_fill_def fill_missing_values_def FILL_VALUE_DECILE_def
      FILL_VALUE_RECENCY_def FILL_VALUE_DEFAULT_def by (rule refl)

lemma map_of_fill:
  "map_of (fill_missing_values df) k = map_option (fillna (fill_value k)) (map_of df k)"
  unfolding fill_missing_values_spec by (induction df) auto

lemma columns_fill: "map fst (fill_missing_values df) = map fst df"
  unfolding fill_missing_values_spec by (induction df) auto

lemma cells_fillna_no_missing: "None \<notin> set (cells (fillna v c))"
  by (auto simp: fillna_def split: option.splits)

lemma in_set_Some: "None \<notin> set xs \<Longrightarrow> x \<in> set xs \<Longrightarrow> \<exists>y. x = Some y"
  by (cases x) auto

lemma no_missing_iff: "no_missing df \<longleftrightarrow> (\<forall>(col, c) \<in> set df. None \<notin> set (cells c))"
  by (auto simp: no_missing_def list_all_iff dest: in_set_Some)

lemma no_missing_fill: "no_missing (fill_missing_values df)"
  unfolding no_missing_iff fill_missing_values_spec
  by (auto simp: cells_fillna_no_missing)




subsection \<open>Clamping negative values\<close>

lemma series_lt_zero_eq:
  "series_lt_zero xs =
     (if list_ex is_other xs then Inl TypeError else Inr (map is_negative xs))"
proof (induction xs)
  case Nil then show ?case by simp
next
  case (Cons x xs)
  then show ?case by (cases x rule: lt_zero.cases) auto
qed

lemma assign_where_clamp: "assign_where (map is_negative xs) (Num 0) xs = map clamp_cell xs"
proof (induction xs)
  case Nil then show ?case by simp
next
  case (Cons x xs)
  then show ?case by (cases x rule: clamp_cell.cases) auto
qed

lemma clamp_cell_id: "\<not> is_negative x \<Longrightarrow> clamp_cell x = x"
  by (cases x rule: clamp_cell.cases) auto

lemma mask_sum_0_clamp: "mask_sum (map is_negative xs) = 0 \<Longrightarrow> map clamp_cell xs = xs"
  by (intro map_idI) (auto simp: mask_sum_def filter_empty_conv clamp_cell_id)

lemma fix_negative_eq:
  "fix_negative col df =
     (case map_of df col of
        None \<Rightarrow> Inr df
      | Some c \<Rightarrow>
          if list_ex is_other (cells c) then Inl TypeError
          else Inr (AList.update col (clamp_column c) df))"
proof (cases "map_of df col")
  case None
  then show ?thesis by (simp add: fix_negative_def)
next
  case (Some c)
  show ?thesis
  proof (cases "mask_sum (map is_negative (cells c)) = 0")
    case True
    then have "clamp_column c = c"
      by (simp add: clamp_column_def mask_sum_0_clamp)
    with Some True show ?thesis
      by (simp add: fix_negative_def series_lt_zero_eq AList.update_triv)
  next
    case False
    with Some show ?thesis
      by (simp add: fix_negative_def series_lt_zero_eq assign_where_clamp clamp_column_def)
  qed
qed

lemma legacy_clamp_eq:
  "map_of df col = Some c \<Longrightarrow> legacy_clamp col df = fix_negative col df"
  by (simp add: legacy_clamp_def fix_negative_eq series_lt_zero_eq assign_where_clamp clamp_column_def)


subsection \<open>Converting types\<close>

lemma ints_of_cells_eq:
  "ints_of_cells xs =
     (if list_all is_number xs then Inr (map trunc_cell xs)
      else Inl (ValueError Cannot_convert_to_integer))"
proof (induction xs)
  case Nil then show ?case by simp
next
  case (Cons x xs)
  then show ?case by (cases x rule: int_of_cell.cases) auto
qed

lemma astype_int_eq:
  "astype_int c =
     (if list_all is_number (cells c) then Inr (to_int_column c)
      else Inl (ValueError Cannot_convert_to_integer))"
  by (simp add: astype_int_def ints_of_cells_eq to_int_column_def)

lemma trunc_of_int: "trunc (of_int n) = n"
  by (simp add: trunc_def)

lemma trunc_cell_idem: "trunc_cell (trunc_cell x) = trunc_cell x"
  by (cases x rule: trunc_cell.cases) (simp_all add: trunc_of_int)

lemma is_number_trunc_cell: "is_number (trunc_cell x) = is_number x"
  by (cases x rule: trunc_cell.cases) simp_all

lemma to_int_column_idem: "to_int_column (to_int_column c) = to_int_column c"
  by (simp add: to_int_column_def trunc_cell_idem)

lemma astype_int_to_int:
  "list_all is_number (cells c) \<Longrightarrow> astype_int (to_int_column c) = Inr (to_int_column c)"
  by (simp add: astype_int_eq to_int_column_idem)
    (simp add: to_int_column_def list_all_iff is_number_trunc_cell)

lemma astype_object_idem: "astype_object (astype_object c) = astype_object c"
  by (simp add: astype_object_def)

lemma map_of_astype_object_cols:
  "map_of (astype_object_cols cols df) k =
     (if k \<in> set cols then map_option astype_object (map_of df k) else map_of df k)"
proof (induction cols arbitrary: df)
  case Nil then show ?case by simp
next
  case (Cons col cols)
  show ?case
  proof (cases "map_of df col")
    case None
    then show ?thesis using Cons.IH [of df] by auto
  next
    case (Some c)
    then show ?thesis
      using Cons.IH [of "AList.update col (astype_object c) df"]
      by (auto simp: update_conv' astype_object_idem)
  qed
qed

lemma keys_astype_object_cols: "map fst (astype_object_cols cols df) = map fst df"
proof (induction cols arbitrary: df)
  case Nil then show ?case by simp
next
  case (Cons col cols)
  then show ?case by (auto simp: update_same_keys split: option.splits)
qed


lemma astype_int_cols_Inr:
  "astype_int_cols cols df = Inr df' \<Longrightarrow>
     map fst df' = map fst df
     \<and> (\<forall>k. map_of df' k =
           (if k \<in> set cols then map_option to_int_column (map_of df k) else map_of df k))
     \<and> (\<forall>k \<in> set cols. \<forall>c. map_of df k = Some c \<longrightarrow> list_all is_number (cells c))"
proof (induction cols arbitrary: df)
  case Nil then show ?case by simp
next
  case (Cons col cols)
  show ?case
  proof (cases "map_of df col")
    case None
    with Cons.prems have "astype_int_cols cols df = Inr df'" by simp
    from Cons.IH [OF this] None show ?thesis by auto
  next
    case (Some c)
    with Cons.prems have num: "list_all is_number (cells c)"
      and rest: "astype_int_cols cols (AList.update col (to_int_column c) df) = Inr df'"
      by (auto simp: astype_int_eq split: if_splits)
    have num': "list_all is_number (cells (to_int_column c))"
      using num by (simp add: to_int_column_def list_all_iff is_number_trunc_cell)
    note ih = Cons.IH [OF rest]
    have keys: "map fst df' = map fst df"
      using ih Some by (simp add: update_same_keys)
    have look: "map_of df' k =
        (if k \<in> set (col # cols) then map_option to_int_column (map_of df k) else map_of df k)" for k
      using ih Some by (simp add: update_conv' to_int_column_idem)
    have nums: "list_all is_number (cells d)" if "k \<in> set (col # cols)" "map_of df k = Some d" for k d
    proof (cases "k = col")
      case True
      with that Some num show ?thesis by simp
    next
      case False
      with that ih show ?thesis by (simp add: update_conv')
    qed
    from keys look nums show ?thesis by blast
  qed
qed



subsection \<open>Missing values through the steps\<close>

lemma no_missing_update:
  "no_missing df \<Longrightarrow> None \<notin> set (cells c) \<Longrightarrow> no_missing (AList.update k c df)"
  unfolding no_missing_iff
proof (induction df)
  case Nil then show ?case by simp
next
  case (Cons p ps) then show ?case by (cases p) auto
qed

lemma no_missing_map_of: "no_missing df \<Longrightarrow> map_of df k = Some c \<Longrightarrow> None \<notin> set (cells c)"
  unfolding no_missing_iff by (auto dest: map_of_SomeD)

lemma clamp_cell_None: "None = clamp_cell x \<longleftrightarrow> x = None"
  by (cases x rule: clamp_cell.cases) auto

lemma trunc_cell_None: "None = trunc_cell x \<longleftrightarrow> x = None"
  by (cases x rule: trunc_cell.cases) auto

lemma cells_clamp_no_missing: "None \<notin> set (cells c) \<Longrightarrow> None \<notin> set (cells (clamp_column c))"
  by (auto simp: clamp_column_def clamp_cell_None)

lemma cells_to_int_no_missing: "None \<notin> set (cells c) \<Longrightarrow> None \<notin> set (cells (to_int_column c))"
  by (auto simp: to_int_column_def trunc_cell_None)

lemma fix_negative_Inr:
  assumes "fix_negative col df = Inr df'"
  shows "map fst df' = map fst df"
    and "map_of df' k = (if k = col then map_option clamp_column (map_of df k) else map_of df k)"
    and "no_missing df \<Longrightarrow> no_missing df'"
    and "i < length df \<Longrightarrow> fst (df ! i) \<noteq> col \<Longrightarrow> df' ! i = df ! i"
proof -
  show "map fst df' = map fst df"
    using assms by (auto simp: fix_negative_eq update_same_keys split: option.splits if_splits)
  show "map_of df' k = (if k = col then map_option clamp_column (map_of df k) else map_of df k)"
    using assms by (auto simp: fix_negative_eq update_conv' split: option.splits if_splits)
  show "no_missing df \<Longrightarrow> no_missing df'"
    using assms
    by (auto simp: fix_negative_eq split: option.splits if_splits
        intro!: no_missing_update cells_clamp_no_missing dest: no_missing_map_of)
  show "i < length df \<Longrightarrow> fst (df ! i) \<noteq> col \<Longrightarrow> df' ! i = df ! i"
    using assms by (auto simp: fix_negative_eq update_nth_other split: option.splits if_splits)
qed

lemma no_missing_astype_object_cols:
  "no_missing df \<Longrightarrow> no_missing (astype_object_cols cols df)"
proof (induction cols arbitrary: df)
  case Nil then show ?case by simp
next
  case (Cons col cols)
  show ?case
  proof (cases "map_of df col")
    case None then show ?thesis using Cons by simp
  next
    case (Some c)
    have "None \<notin> set (cells (astype_object c))"
      using no_missing_map_of [OF Cons.prems Some] by (simp add: astype_object_def)
    then show ?thesis using Some Cons by (simp add: no_missing_update)
  qed
qed

lemma no_missing_astype_int_cols:
  "astype_int_cols cols df = Inr df' \<Longrightarrow> no_missing df \<Longrightarrow> no_missing df'"
proof (induction cols arbitrary: df)
  case Nil then show ?case by simp
next
  case (Cons col cols)
  show ?case
  proof (cases "map_of df col")
    case None then show ?thesis using Cons by simp
  next
    case (Some c)
    with Cons.prems have rest: "astype_int_cols cols (AList.update col (to_int_column c) df) = Inr df'"
      by (auto simp: astype_int_eq split: if_splits)
    have "None \<notin> set (cells (to_int_column c))"
      using no_missing_map_of [OF Cons.prems(2) Some] by (rule cells_to_int_no_missing)
    then show ?thesis using Cons.IH [OF rest] Cons.prems(2) by (simp add: no_missing_update)
  qed
qed

lemma preprocess_data_Inr:
  assumes "preprocess_data df = Inr df'"
  shows "map fst df' = map fst df"
    and "map_of df' k = map_option (clean_column k) (map_of df k)"
    and "no_missing df'"
    and "k \<in> set INT_COLUMNS \<Longrightarrow> map_of df' k = Some c \<Longrightarrow> list_all is_number (cells c)"
proof -
  let ?d1 = "fill_missing_values df"
  from assms obtain d2 d3 where
    s2: "fix_negative ''SALES_6M'' ?d1 = Inr d2" and
    s3: "fix_negative ''COUPON_EXPENSE_6M'' d2 = Inr d3" and
    s4: "astype_int_cols INT_COLUMNS (astype_object_cols KEY_COLUMNS d3) = Inr df'"
    by (auto simp: preprocess_data_def fix_negative_values_def convert_data_types_def
        split: sum.splits)
  let ?d4 = "astype_object_cols KEY_COLUMNS d3"
  note i = astype_int_cols_Inr [OF s4]
  show "map fst df' = map fst df"
    using i fix_negative_Inr(1) [OF s2] fix_negative_Inr(1) [OF s3]
    by (simp add: keys_astype_object_cols columns_fill)
  have nm: "no_missing ?d4"
    by (intro no_missing_astype_object_cols fix_negative_Inr(3) [OF s3]
        fix_negative_Inr(3) [OF s2] no_missing_fill)
  show "no_missing df'"
    using no_missing_astype_int_cols [OF s4 nm] .
  have look: "map_of df' k = map_option (clean_column k) (map_of df k)" for k
  proof (cases "map_of df k")
    case None
    then show ?thesis
      using i by (auto simp: map_of_astype_object_cols fix_negative_Inr(2) [OF s3]
        fix_negative_Inr(2) [OF s2] map_of_fill)
  next
    case (Some c0)
    define c1 where "c1 = fillna (fill_value k) c0"
    define c2 where "c2 = (if k = ''SALES_6M'' then clamp_column c1 else c1)"
    define c3 where "c3 = (if k = ''COUPON_EXPENSE_6M'' then clamp_column c2 else c2)"
    define c4 where "c4 = (if k \<in> set KEY_COLUMNS then astype_object c3 else c3)"
    have "map_of ?d1 k = Some c1"
      using Some by (simp add: map_of_fill c1_def)
    then have "map_of d2 k = Some c2"
      by (auto simp: fix_negative_Inr(2) [OF s2] c2_def)
    then have "map_of d3 k = Some c3"
      by (auto simp: fix_negative_Inr(2) [OF s3] c3_def)
    then have "map_of ?d4 k = Some c4"
      by (auto simp: map_of_astype_object_cols c4_def)
    then have "map_of df' k = Some (if k \<in> set INT_COLUMNS then to_int_column c4 else c4)"
      using i by auto
    moreover have "clean_column k c0 = (if k \<in> set INT_COLUMNS then to_int_column c4 else c4)"
      unfolding clean_column_def Let_def c4_def c3_def c2_def c1_def by auto
    ultimately show ?thesis using Some by simp
  qed
  show "map_of df' k = map_option (clean_column k) (map_of df k)" by (rule look)
  show "list_all is_number (cells c)" if "k \<in> set INT_COLUMNS" "map_of df' k = Some c"
  proof -
    from that i obtain c4 where c4: "map_of ?d4 k = Some c4" "c = to_int_column c4"
      by auto
    with that i have "list_all is_number (cells c4)" by blast
    with c4 show ?thesis by (simp add: to_int_column_def list_all_iff is_number_trunc_cell)
  qed
qed


subsection \<open>What a cleaned frame looks like\<close>











subsection \<open>The sample batch, cleaned\<close>

lemma sample_preprocessed: "preprocess_data sample_customer_data = Inr sample_cleaned"
  by code_simp

text \<open>
  C3: the cleaning fills the missing values of a column by its name: 11 when the name
  contains \<open>DECILE\<close>, otherwise 366 when it contains \<open>_R\<close>, otherwise 0
  (\<^const>\<open>fill_value\<close>); after the filling, and after a cleaning that returns, no column has
  a missing value; and a missing \<open>BBB_INSTORE_RFM_DECILE\<close> is 11 in the cleaned frame.
\<close>

theorem fill_policy:
  "fill_missing_values df = map (\<lambda>(col, c). (col, fillna (fill_value col) c)) df
   \<and> no_missing (fill_missing_values df)
   \<and> (\<forall>df'. preprocess_data df = Inr df' \<longrightarrow>
         no_missing df'
         \<and> (\<forall>c. map_of df ''BBB_INSTORE_RFM_DECILE'' = Some c \<longrightarrow>
               (\<exists>c'. map_of df' ''BBB_INSTORE_RFM_DECILE'' = Some c'
                  \<and> length (cells c') = length (cells c)
                  \<and> (\<forall>i < length (cells c).
                        cells c ! i = None \<longrightarrow> cells c' ! i = Some (Num 11)))))"
proof (intro conjI allI impI)
  show "fill_missing_values df = map (\<lambda>(col, c). (col, fillna (fill_value col) c)) df"
    by (rule fill_missing_values_spec)
  show "no_missing (fill_missing_values df)" by (rule no_missing_fill)
next
  fix df' assume "preprocess_data df = Inr df'"
  then show "no_missing df'" by (rule preprocess_data_Inr(3))
next
  fix df' c
  assume p: "preprocess_data df = Inr df'" and c: "map_of df ''BBB_INSTORE_RFM_DECILE'' = Some c"
  let ?c' = "to_int_column (fillna 11 c)"
  have "clean_column ''BBB_INSTORE_RFM_DECILE'' c = ?c'"
    by (simp add: clean_column_def Let_def fill_value_def KEY_COLUMNS_def INT_COLUMNS_def)
  then have "map_of df' ''BBB_INSTORE_RFM_DECILE'' = Some ?c'"
    using preprocess_data_Inr(2) [OF p, of "''BBB_INSTORE_RFM_DECILE''"] c by simp
  moreover have "length (cells ?c') = length (cells c)"
    by (simp add: to_int_column_def fillna_def)
  moreover have "\<forall>i < length (cells c). cells c ! i = None \<longrightarrow> cells ?c' ! i = Some (Num 11)"
    by (simp add: to_int_column_def fillna_def trunc_def)
  ultimately show "\<exists>c'. map_of df' ''BBB_INSTORE_RFM_DECILE'' = Some c'
      \<and> length (cells c') = length (cells c)
      \<and> (\<forall>i < length (cells c). cells c ! i = None \<longrightarrow> cells c' ! i = Some (Num 11))"
    by blast
qed

theorem fill_policy_witness:
  "preprocess_data sample_customer_data = Inr sample_cleaned
   \<and> no_missing sample_cleaned
   \<and> map_of sample_customer_data ''BBB_INSTORE_RFM_DECILE''
       = Some \<lparr>dtype = Float64, cells = [Some (Num 5), None, Some (Num 3), Some (Num 10), Some (Num 6)]\<rparr>
   \<and> map_of sample_cleaned ''BBB_INSTORE_RFM_DECILE''
       = Some \<lparr>dtype = Int64,
           cells = [Some (Num 5), Some (Num 11), Some (Num 3), Some (Num 10), Some (Num 6)]\<rparr>"
proof -
  have "no_missing sample_cleaned"
    using fill_policy [of sample_customer_data] sample_preprocessed by blast
  moreover have "map_of sample_customer_data ''BBB_INSTORE_RFM_DECILE''
       = Some \<lparr>dtype = Float64, cells = [Some (Num 5), None, Some (Num 3), Some (Num 10), Some (Num 6)]\<rparr>"
    by (simp add: sample_customer_data_def)
  moreover have "map_of sample_cleaned ''BBB_INSTORE_RFM_DECILE''
       = Some \<lparr>dtype = Int64,
           cells = [Some (Num 5), Some (Num 11), Some (Num 3), Some (Num 10), Some (Num 6)]\<rparr>"
    by (simp add: sample_cleaned_def)
  ultimately show ?thesis using sample_preprocessed by simp
qed


subsection \<open>The clamping step as a whole\<close>






section \<open>The legacy cleaning and the loader\<close>

lemma present_iff: "k \<in> set (columns df) \<longleftrightarrow> map_of df k \<noteq> None"
  by (simp add: columns_def map_of_eq_None_iff)

lemma select_assign_object:
  "distinct cols \<Longrightarrow> \<forall>k \<in> set cols. map_of df k = map_of df0 k \<and> map_of df0 k \<noteq> None \<Longrightarrow>
   \<exists>t. select_columns cols df0 = Inr t
      \<and> assign_columns (frame_astype_object t) df = astype_object_cols cols df"
proof (induction cols arbitrary: df)
  case Nil
  then show ?case by (simp add: frame_astype_object_def)
next
  case (Cons col cols)
  from Cons.prems obtain c where c: "map_of df0 col = Some c" "map_of df col = Some c" by auto
  let ?df1 = "AList.update col (astype_object c) df"
  have "\<forall>k \<in> set cols. map_of ?df1 k = map_of df0 k \<and> map_of df0 k \<noteq> None"
    using Cons.prems by (auto simp: update_conv')
  with Cons.IH [of ?df1] Cons.prems(1) obtain t where
    t: "select_columns cols df0 = Inr t"
       "assign_columns (frame_astype_object t) ?df1 = astype_object_cols cols ?df1"
    by auto
  then show ?case using c by (simp add: frame_astype_object_def)
qed

lemma select_assign_int:
  "distinct cols \<Longrightarrow> \<forall>k \<in> set cols. map_of df k = map_of df0 k \<and> map_of df0 k \<noteq> None \<Longrightarrow>
   \<exists>t. select_columns cols df0 = Inr t
      \<and> (case frame_astype_int t of Inl e \<Rightarrow> Inl e | Inr t' \<Rightarrow> Inr (assign_columns t' df))
          = astype_int_cols cols df"
proof (induction cols arbitrary: df)
  case Nil
  then show ?case by simp
next
  case (Cons col cols)
  from Cons.prems obtain c where c: "map_of df0 col = Some c" "map_of df col = Some c" by auto
  have sel: "\<exists>t. select_columns cols df0 = Inr t
      \<and> (case frame_astype_int t of Inl e \<Rightarrow> Inl e | Inr t' \<Rightarrow> Inr (assign_columns t' d))
          = astype_int_cols cols d"
    if "\<forall>k \<in> set cols. map_of d k = map_of df0 k" for d
    using Cons.IH [of d] Cons.prems that by auto
  show ?case
  proof (cases "astype_int c")
    case (Inl e)
    from sel [of df] Cons.prems obtain t where "select_columns cols df0 = Inr t" by auto
    with c Inl show ?thesis by simp
  next
    case (Inr c')
    let ?df1 = "AList.update col c' df"
    have "\<forall>k \<in> set cols. map_of ?df1 k = map_of df0 k"
      using Cons.prems by (auto simp: update_conv')
    from sel [OF this] obtain t where
      t: "select_columns cols df0 = Inr t"
         "(case frame_astype_int t of Inl e \<Rightarrow> Inl e | Inr t' \<Rightarrow> Inr (assign_columns t' ?df1))
            = astype_int_cols cols ?df1"
      by auto
    then show ?thesis using c Inr by (auto split: sum.splits)
  qed
qed

lemma fix_negative_present:
  "fix_negative col df = Inr df' \<Longrightarrow> map_of df' k \<noteq> None \<longleftrightarrow> map_of df k \<noteq> None"
  using fix_negative_Inr(2) [of col df df' k] by auto

lemma astype_object_cols_present:
  "map_of (astype_object_cols cols df) k \<noteq> None \<longleftrightarrow> map_of df k \<noteq> None"
  by (simp add: map_of_astype_object_cols)

lemma distinct_KEY: "distinct KEY_COLUMNS" by (simp add: KEY_COLUMNS_def)
lemma distinct_INT: "distinct INT_COLUMNS" by (simp add: INT_COLUMNS_def)

lemma data_upload_unfold:
  "data_upload data =
     (case legacy_clamp ''SALES_6M'' (legacy_fill data) of
        Inl e \<Rightarrow> Inl e
      | Inr d2 \<Rightarrow>
     (case legacy_clamp ''COUPON_EXPENSE_6M'' d2 of
        Inl e \<Rightarrow> Inl e
      | Inr d3 \<Rightarrow>
     (case select_columns KEY_COLUMNS d3 of
        Inl e \<Rightarrow> Inl e
      | Inr keys \<Rightarrow>
     (case select_columns INT_COLUMNS (assign_columns (frame_astype_object keys) d3) of
           Inl e \<Rightarrow> Inl e
         | Inr key1 \<Rightarrow>
             (case frame_astype_int key1 of
                Inl e \<Rightarrow> Inl e
              | Inr ints \<Rightarrow> Inr (assign_columns ints (assign_columns (frame_astype_object keys) d3)))))))"
  unfolding data_upload_def KEY_COLUMNS_def INT_COLUMNS_def Let_def by (rule refl)

lemma data_upload_eq:
  assumes "set ([''SALES_6M'', ''COUPON_EXPENSE_6M''] @ KEY_COLUMNS @ INT_COLUMNS) \<subseteq> set (columns df)"
  shows "data_upload df = preprocess_data df"
proof -
  let ?d1 = "fill_missing_values df"
  have pres: "map_of df k \<noteq> None"
    if "k \<in> set ([''SALES_6M'', ''COUPON_EXPENSE_6M''] @ KEY_COLUMNS @ INT_COLUMNS)" for k
    using assms that present_iff [of k df] by blast
  have pres1: "map_of ?d1 k \<noteq> None"
    if "k \<in> set ([''SALES_6M'', ''COUPON_EXPENSE_6M''] @ KEY_COLUMNS @ INT_COLUMNS)" for k
    using pres [OF that] by (simp add: map_of_fill)
  obtain c1 where c1: "map_of ?d1 ''SALES_6M'' = Some c1"
    using pres1 [of "''SALES_6M''"] by auto
  have step1: "legacy_clamp ''SALES_6M'' (legacy_fill df) = fix_negative ''SALES_6M'' ?d1"
    using legacy_clamp_eq [OF c1] by (simp add: legacy_fill_eq)
  show ?thesis
  proof (cases "fix_negative ''SALES_6M'' ?d1")
    case (Inl e)
    then show ?thesis
      by (simp add: data_upload_unfold step1 preprocess_data_def fix_negative_values_def)
  next
    case (Inr d2)
    have pres2: "map_of d2 k \<noteq> None"
      if "k \<in> set ([''SALES_6M'', ''COUPON_EXPENSE_6M''] @ KEY_COLUMNS @ INT_COLUMNS)" for k
      using pres1 [OF that] fix_negative_present [OF Inr] by simp
    obtain c2 where c2: "map_of d2 ''COUPON_EXPENSE_6M'' = Some c2"
      using pres2 [of "''COUPON_EXPENSE_6M''"] by auto
    have step2: "legacy_clamp ''COUPON_EXPENSE_6M'' d2 = fix_negative ''COUPON_EXPENSE_6M'' d2"
      by (rule legacy_clamp_eq [OF c2])
    show ?thesis
    proof (cases "fix_negative ''COUPON_EXPENSE_6M'' d2")
      case (Inl e)
      with Inr show ?thesis
        by (simp add: data_upload_unfold step1 step2 preprocess_data_def fix_negative_values_def)
    next
      case d3: (Inr d3)
      have pres3: "map_of d3 k \<noteq> None"
        if "k \<in> set ([''SALES_6M'', ''COUPON_EXPENSE_6M''] @ KEY_COLUMNS @ INT_COLUMNS)" for k
        using pres2 [OF that] fix_negative_present [OF d3] by simp
      have "\<forall>k \<in> set KEY_COLUMNS. map_of d3 k = map_of d3 k \<and> map_of d3 k \<noteq> None"
        using pres3 by simp
      from select_assign_object [OF distinct_KEY this] obtain keys where
        keys: "select_columns KEY_COLUMNS d3 = Inr keys"
              "assign_columns (frame_astype_object keys) d3 = astype_object_cols KEY_COLUMNS d3"
        by auto
      let ?d4 = "astype_object_cols KEY_COLUMNS d3"
      have "map_of ?d4 k \<noteq> None" if "k \<in> set INT_COLUMNS" for k
        using pres3 [of k] that astype_object_cols_present [of KEY_COLUMNS d3 k] by simp
      then have "\<forall>k \<in> set INT_COLUMNS. map_of ?d4 k = map_of ?d4 k \<and> map_of ?d4 k \<noteq> None"
        by blast
      from select_assign_int [OF distinct_INT this] obtain key1 where
        key1: "select_columns INT_COLUMNS ?d4 = Inr key1"
              "(case frame_astype_int key1 of Inl e \<Rightarrow> Inl e | Inr t' \<Rightarrow> Inr (assign_columns t' ?d4))
                 = astype_int_cols INT_COLUMNS ?d4"
        by auto
      have "data_upload df =
          (case select_columns INT_COLUMNS (assign_columns (frame_astype_object keys) d3) of
             Inl e \<Rightarrow> Inl e
           | Inr key1 \<Rightarrow>
               (case frame_astype_int key1 of
                  Inl e \<Rightarrow> Inl e
                | Inr ints \<Rightarrow>
                    Inr (assign_columns ints (assign_columns (frame_astype_object keys) d3))))"
        using Inr d3 keys(1) by (simp add: data_upload_unfold step1 step2)
      then have "data_upload df =
          (case select_columns INT_COLUMNS ?d4 of
             Inl e \<Rightarrow> Inl e
           | Inr key1 \<Rightarrow>
               (case frame_astype_int key1 of
                  Inl e \<Rightarrow> Inl e
                | Inr ints \<Rightarrow> Inr (assign_columns ints ?d4)))"
        unfolding keys(2) .
      then have "data_upload df = astype_int_cols INT_COLUMNS ?d4"
        unfolding key1(1) using key1(2) by simp
      moreover have "preprocess_data df = astype_int_cols INT_COLUMNS ?d4"
        using Inr d3
        by (simp add: preprocess_data_def fix_negative_values_def convert_data_types_def)
      ultimately show ?thesis by simp
    qed
  qed
qed

lemma sample_present:
  "set ([''SALES_6M'', ''COUPON_EXPENSE_6M''] @ KEY_COLUMNS @ INT_COLUMNS) \<subseteq> set (columns sample_customer_data)"
  by (simp add: KEY_COLUMNS_def INT_COLUMNS_def columns_def sample_customer_data_def)

text \<open>
  C10: on a frame that has the columns \<open>SALES_6M\<close>, \<open>COUPON_EXPENSE_6M\<close>, \<open>CUSTOMER_ID\<close>,
  \<open>ADDRESS_ID\<close> and all of \<open>INT_COLUMNS\<close>, the cleaning of the legacy \<^verbatim>\<open>data_upload\<close> and
  \<^verbatim>\<open>DataLoader._preprocess_data\<close> return the same frame, or raise the same exception.
\<close>

theorem legacy_cleaning_equal:
  "set ([''SALES_6M'', ''COUPON_EXPENSE_6M'', ''CUSTOMER_ID'', ''ADDRESS_ID''] @ INT_COLUMNS)
     \<subseteq> set (columns df)
   \<Longrightarrow> data_upload df = preprocess_data df"
  by (rule data_upload_eq) (simp add: KEY_COLUMNS_def)

theorem legacy_cleaning_equal_witness:
  "set ([''SALES_6M'', ''COUPON_EXPENSE_6M'', ''CUSTOMER_ID'', ''ADDRESS_ID''] @ INT_COLUMNS)
     \<subseteq> set (columns sample_customer_data)
   \<and> data_upload sample_customer_data = Inr sample_cleaned
   \<and> preprocess_data sample_customer_data = Inr sample_cleaned"
proof -
  have p: "set ([''SALES_6M'', ''COUPON_EXPENSE_6M'', ''CUSTOMER_ID'', ''ADDRESS_ID''] @ INT_COLUMNS)
     \<subseteq> set (columns sample_customer_data)"
    using sample_present by (simp add: KEY_COLUMNS_def)
  from legacy_cleaning_equal [OF p] sample_preprocessed p show ?thesis by simp
qed

text \<open>
  Without those columns the two differ: the legacy code raises where the loader, which
  asks whether the column is there, goes on.
\<close>

lemma legacy_missing_column:
  "data_upload sales_scenario = Inl (AttributeError ''COUPON_EXPENSE_6M'')
   \<and> preprocess_data sales_scenario =
       Inr [(''CUSTOMER_ID'', \<lparr>dtype = Object, cells = map (Some \<circ> Num) [1001, 1002, 1003, 1004, 1005]\<rparr>),
            (''SALES_6M'', \<lparr>dtype = Int64, cells = map (Some \<circ> Num) [100, 0, 250, 0, 400]\<rparr>)]"
  by code_simp

section \<open>The cleaning on a store of frames\<close>

lemma preprocess_data_on_eq:
  "preprocess_data_on r s =
     (case fix_negative_values (fill_missing_values (s ! r)) of
        Inl e \<Rightarrow> (Inl e, s @ [fill_missing_values (s ! r)])
      | Inr t \<Rightarrow>
          (case convert_data_types t of
             Inl e \<Rightarrow> (Inl e, s @ [t])
           | Inr t' \<Rightarrow> (Inr (length s), s @ [t'])))"
  by (simp add: preprocess_data_on_def df_copy_def Let_def split: sum.splits)

lemma preprocess_data_on_Inr:
  "preprocess_data (s ! r) = Inr t \<Longrightarrow> preprocess_data_on r s = (Inr (length s), s @ [t])"
  by (auto simp: preprocess_data_on_eq preprocess_data_def split: sum.splits)

text \<open>
  C9: the cleaning does not change its argument. On a store \<open>s\<close> and a reference \<open>r\<close> into
  it, the frame at \<open>r\<close> is after the call what it was before, every frame of \<open>s\<close> is
  unchanged, and the only effect is one new frame at the end of the store: the returned
  one, when the cleaning returns.
\<close>

theorem input_not_mutated:
  "r < length s \<Longrightarrow> preprocess_data_on r s = (res, s') \<Longrightarrow>
     s' ! r = s ! r
     \<and> length s' = length s + 1
     \<and> take (length s) s' = s
     \<and> (case preprocess_data (s ! r) of
           Inl e \<Rightarrow> res = Inl e
         | Inr t \<Rightarrow> res = Inr (length s) \<and> s' ! length s = t)"
  by (auto simp: preprocess_data_on_eq preprocess_data_def nth_append split: sum.splits)

theorem input_not_mutated_witness:
  "(0::nat) < length [sample_customer_data]
   \<and> preprocess_data_on 0 [sample_customer_data] = (Inr 1, [sample_customer_data, sample_cleaned])
   \<and> [sample_customer_data, sample_cleaned] ! 0 = sample_customer_data
   \<and> sample_cleaned \<noteq> sample_customer_data"
proof -
  have e: "preprocess_data_on 0 [sample_customer_data] = (Inr 1, [sample_customer_data, sample_cleaned])"
    using preprocess_data_on_Inr [of "[sample_customer_data]" 0 sample_cleaned] sample_preprocessed
    by simp
  have d: "sample_cleaned \<noteq> sample_customer_data"
    by (simp add: sample_cleaned_def sample_customer_data_def)
  from input_not_mutated [OF _ e] d e show ?thesis by simp
qed

section \<open>The predictor\<close>

lemma select_columns_Inl: "select_columns cols df = Inl e \<Longrightarrow> \<exists>k. e = KeyError k"
  by (induction cols) (auto split: option.splits sum.splits)

lemma predict_unloaded: "model self = None \<Longrightarrow> predict self data = Inl (ValueError Model_not_loaded)"
  by (simp add: predict_def)

lemma predict_missing:
  "model self = Some m \<Longrightarrow> \<not> set FEATURE_COLUMNS \<subseteq> set (columns data) \<Longrightarrow>
   predict self data =
     Inl (ValueError (Missing_required_features (set FEATURE_COLUMNS - set (columns data))))"
  by (simp add: predict_def Let_def)

lemma predict_other:
  "model self = Some m \<Longrightarrow> set FEATURE_COLUMNS \<subseteq> set (columns data) \<Longrightarrow>
   predict self data \<noteq> Inl (ValueError Model_not_loaded)
   \<and> predict self data \<noteq> Inl (ValueError (Missing_required_features M))"
  by (auto simp: predict_def Let_def pd_cut_DECILE dest: select_columns_Inl
      split: sum.splits option.splits)

text \<open>
  C5: \<^verbatim>\<open>predict\<close> fails with the model-not-loaded error exactly when no classifier is loaded;
  with one loaded, it fails with the missing-features error exactly when a name of
  \<open>FEATURE_COLUMNS\<close> (14 names) is not a column, the error names the missing columns,
  and it is raised whatever the classifier is, that is before the classifier is called;
  otherwise neither error is raised.
\<close>

theorem predict_failures:
  "(predict self data = Inl (ValueError Model_not_loaded) \<longleftrightarrow> model self = None)
   \<and> (model self \<noteq> None \<longrightarrow>
        ((\<exists>M. predict self data = Inl (ValueError (Missing_required_features M)))
           \<longleftrightarrow> \<not> set FEATURE_COLUMNS \<subseteq> set (columns data)))
   \<and> (model self \<noteq> None \<and> \<not> set FEATURE_COLUMNS \<subseteq> set (columns data) \<longrightarrow>
        (\<forall>m. predict \<lparr>model = Some m\<rparr> data =
           Inl (ValueError (Missing_required_features (set FEATURE_COLUMNS - set (columns data))))))
   \<and> length FEATURE_COLUMNS = 14 \<and> distinct FEATURE_COLUMNS"
proof (cases "model self")
  case None
  then show ?thesis by (simp add: predict_unloaded) (simp add: FEATURE_COLUMNS_def)
next
  case (Some m)
  have fc: "length FEATURE_COLUMNS = 14 \<and> distinct FEATURE_COLUMNS"
    by (simp add: FEATURE_COLUMNS_def)
  show ?thesis
  proof (cases "set FEATURE_COLUMNS \<subseteq> set (columns data)")
    case True
    with Some fc predict_other [OF Some True] show ?thesis by auto
  next
    case False
    have "predict \<lparr>model = Some m'\<rparr> data =
           Inl (ValueError (Missing_required_features (set FEATURE_COLUMNS - set (columns data))))" for m'
      using predict_missing [of "\<lparr>model = Some m'\<rparr>" m' data] False by simp
    with Some fc False predict_missing [OF Some False] show ?thesis by auto
  qed
qed

theorem predict_failures_witness:
  "predict \<lparr>model = None\<rparr> sample_cleaned = Inl (ValueError Model_not_loaded)
   \<and> predict \<lparr>model = Some coin_classifier\<rparr> sales_scenario =
       Inl (ValueError (Missing_required_features (set FEATURE_COLUMNS - {''SALES_6M''})))
   \<and> predict \<lparr>model = Some coin_classifier\<rparr> sample_cleaned =
       Inr \<lparr>out_CUSTOMER_ID = map (Some \<circ> Num) [1001, 1002, 1003, 1004, 1005],
            out_PREVIOUS_PURCHASE = map (Some \<circ> Other)
              [''2024-01-01'', ''2024-01-02'', ''2024-01-03'', ''2024-01-04'', ''2024-01-05''],
            out_P = [1/2, 1/2, 1/2, 1/2, 1/2],
            out_DECILE = [Some ''4'', Some ''4'', Some ''4'', Some ''4'', Some ''4'']\<rparr>"
proof -
  have 1: "predict \<lparr>model = None\<rparr> sample_cleaned = Inl (ValueError Model_not_loaded)"
    using predict_failures [of "\<lparr>model = None\<rparr>" sample_cleaned] by simp
  have "\<not> set FEATURE_COLUMNS \<subseteq> set (columns sales_scenario)"
    by (simp add: FEATURE_COLUMNS_def columns_def sales_scenario_def)
  then have "predict \<lparr>model = Some coin_classifier\<rparr> sales_scenario =
       Inl (ValueError (Missing_required_features (set FEATURE_COLUMNS - set (columns sales_scenario))))"
    using predict_failures [of "\<lparr>model = Some coin_classifier\<rparr>" sales_scenario] by simp
  moreover have "set FEATURE_COLUMNS - set (columns sales_scenario) = set FEATURE_COLUMNS - {''SALES_6M''}"
    by (simp add: FEATURE_COLUMNS_def columns_def sales_scenario_def)
  ultimately have 2: "predict \<lparr>model = Some coin_classifier\<rparr> sales_scenario =
       Inl (ValueError (Missing_required_features (set FEATURE_COLUMNS - {''SALES_6M''})))"
    by simp
  have 3: "predict \<lparr>model = Some coin_classifier\<rparr> sample_cleaned =
       Inr \<lparr>out_CUSTOMER_ID = map (Some \<circ> Num) [1001, 1002, 1003, 1004, 1005],
            out_PREVIOUS_PURCHASE = map (Some \<circ> Other)
              [''2024-01-01'', ''2024-01-02'', ''2024-01-03'', ''2024-01-04'', ''2024-01-05''],
            out_P = [1/2, 1/2, 1/2, 1/2, 1/2],
            out_DECILE = [Some ''4'', Some ''4'', Some ''4'', Some ''4'', Some ''4'']\<rparr>"
    by code_simp
  from 1 2 3 show ?thesis by simp
qed

subsection \<open>The rows of the output\<close>










end
